theory Spec2Isabelle
  imports Complex_Main "HOL-Library.Char_ord" "HOL-Library.List_Lexorder"
begin

section \<open>Data model\<close>

text \<open>
  The tables of the migrations under \<^verbatim>\<open>prisma/migrations\<close>, one record per row.
  Identifiers are the TEXT primary keys; strings are ordered lexicographically, which is
  the order of JavaScript's default \<^verbatim>\<open>sort()\<close> and of \<^verbatim>\<open>orderBy: { id: "asc" }\<close>.
  Amounts and balances are exact rationals: the DECIMAL(18,6) columns and the JavaScript
  \<^verbatim>\<open>number\<close> arguments are read as the numbers they denote, and \<^verbatim>\<open>Number(balance)\<close> is the
  identity. The timestamp columns play no part in any operation and are left out.
\<close>

datatype TransactionType = DEPOSIT | WITHDRAWAL | TRANSFER

datatype TransactionStatus = PENDING | COMPLETED | FAILED | REVERSED

text \<open>
  The description of a ledger entry is either the caller's text or one of the three
  template strings of the service, kept as a template with its two arguments
  (\<^verbatim>\<open>`Top-up: ${amount} ${assetTypeName}`\<close> and its siblings).
\<close>

datatype Description =
    Text string
  | TopUpText rat string
  | BonusText rat string
  | PurchaseText rat string

record AssetType =
  at_id :: string
  at_name :: string

record User =
  user_id :: string
  email :: string
  userName :: string

record Wallet =
  wallet_id :: string
  userId :: string
  assetTypeId :: string
  balance :: rat

text \<open>
  The JSONB column \<^verbatim>\<open>metadata\<close> only ever holds \<^verbatim>\<open>{ idempotencyKey }\<close> or nothing, so it is
  the optional key.
\<close>

record Transaction =
  tx_id :: string
  senderWalletId :: string
  receiverWalletId :: string
  amount :: rat
  txType :: TransactionType
  status :: TransactionStatus
  description :: "Description option"
  metadata :: "string option"

record Database =
  assetTypes :: "AssetType list"
  users :: "User list"
  wallets :: "Wallet list"
  transactions :: "Transaction list"

text \<open>
  Every \<^verbatim>\<open>throw\<close> of the services and every rejection of the storage backend or of the
  request layer is a value. The comment gives the message of the source.
\<close>

datatype error =
    DuplicateRequest              \<comment> \<open>Idempotency Key Already Exists\<close>
  | AssetNotFound string          \<comment> \<open>Asset type ... not found\<close>
  | TreasuryNotConfigured         \<comment> \<open>Treasury account not found\<close>
  | WalletNotFound                \<comment> \<open>Wallet not found\<close>
  | InsufficientTreasuryBalance   \<comment> \<open>Insufficient treasury balance\<close>
  | InsufficientBalance           \<comment> \<open>Insufficient balance\<close>
  | RecordNotFound                \<comment> \<open>update of a row that does not exist\<close>
  | UniqueViolation               \<comment> \<open>insert of a primary key that exists\<close>
  | ForeignKeyViolation           \<comment> \<open>insert of a wallet for a missing user or asset type\<close>
  | RequiredFields                \<comment> \<open>userId, assetType, and amount are required\<close>
  | InvalidAmount                 \<comment> \<open>Amount must be greater than 0\<close>

definition bindE :: "error + 'a \<Rightarrow> ('a \<Rightarrow> error + 'b) \<Rightarrow> error + 'b" where
  "bindE m f = (case m of Inl e \<Rightarrow> Inl e | Inr x \<Rightarrow> f x)"

text \<open>JavaScript truthiness of an optional string: \<^verbatim>\<open>undefined\<close> and \<^verbatim>\<open>""\<close> are falsy.\<close>

definition truthy :: "string option \<Rightarrow> bool" where
  "truthy k = (case k of None \<Rightarrow> False | Some s \<Rightarrow> s \<noteq> [])"

section \<open>Storage transactions\<close>

text \<open>
  \<^verbatim>\<open>prisma.$transaction(callback)\<close>: the callback runs on the database; when it throws,
  every write it made is rolled back and the error is rethrown. Calls are sequential
  here, so a serialization conflict does not arise.
\<close>

definition prisma_transaction ::
  "(Database \<Rightarrow> error + ('a \<times> Database)) \<Rightarrow> Database \<Rightarrow> (error + 'a) \<times> Database" where
  "prisma_transaction callback db =
     (case callback db of
        Inl e \<Rightarrow> (Inl e, db)
      | Inr (r, db') \<Rightarrow> (Inr r, db'))"

section \<open>AssetTypeDbAccess and UserDbAccess\<close>

definition findByName :: "Database \<Rightarrow> string \<Rightarrow> AssetType option" where
  "findByName db n = find (\<lambda>a. at_name a = n) (assetTypes db)"

definition findTreasuryUser :: "Database \<Rightarrow> User option" where
  "findTreasuryUser db = find (\<lambda>u. email u = ''treasury@wallet.internal'') (users db)"

section \<open>WalletDbAccess\<close>

text \<open>
  \<^verbatim>\<open>wallet.upsert\<close> with an empty update: the row of the pair if there is one, else a new
  row with balance 0. The primary key of the new row is generated by the backend; it is
  the argument \<open>newId\<close>. The insert is refused when the user or the asset type is missing
  (foreign keys) or the key is taken (primary key).
\<close>

definition getOrCreate ::
  "Database \<Rightarrow> string \<Rightarrow> string \<Rightarrow> string \<Rightarrow> error + (Wallet \<times> Database)" where
  "getOrCreate db uid aid newId =
     (case find (\<lambda>w. userId w = uid \<and> assetTypeId w = aid) (wallets db) of
        Some w \<Rightarrow> Inr (w, db)
      | None \<Rightarrow>
          if uid \<notin> set (map user_id (users db)) \<or> aid \<notin> set (map at_id (assetTypes db))
          then Inl ForeignKeyViolation
          else if newId \<in> set (map wallet_id (wallets db)) then Inl UniqueViolation
          else
            (let w = \<lparr>wallet_id = newId, userId = uid, assetTypeId = aid, balance = 0\<rparr>
             in Inr (w, db\<lparr>wallets := wallets db @ [w]\<rparr>)))"

definition findManyByIds :: "Database \<Rightarrow> string list \<Rightarrow> Wallet list" where
  "findManyByIds tx walletIds =
     (let sortedIds = sort walletIds in
      if length sortedIds = 0 then []
      else sort_key wallet_id (filter (\<lambda>w. wallet_id w \<in> set sortedIds) (wallets tx)))"

text \<open>\<^verbatim>\<open>tx.wallet.update({ where: { id }, data })\<close>: fails when no row has the id.\<close>

definition wallet_update ::
  "Database \<Rightarrow> string \<Rightarrow> (Wallet \<Rightarrow> Wallet) \<Rightarrow> error + (Wallet \<times> Database)" where
  "wallet_update tx wid f =
     (case find (\<lambda>w. wallet_id w = wid) (wallets tx) of
        None \<Rightarrow> Inl RecordNotFound
      | Some w \<Rightarrow>
          Inr (f w, tx\<lparr>wallets := map (\<lambda>x. if wallet_id x = wid then f x else x) (wallets tx)\<rparr>))"

definition incrementBalance :: "Database \<Rightarrow> string \<Rightarrow> rat \<Rightarrow> error + (Wallet \<times> Database)" where
  "incrementBalance tx walletId amt =
     wallet_update tx walletId (\<lambda>w. w\<lparr>balance := balance w + amt\<rparr>)"

definition decrementBalance :: "Database \<Rightarrow> string \<Rightarrow> rat \<Rightarrow> error + (Wallet \<times> Database)" where
  "decrementBalance tx walletId amt =
     wallet_update tx walletId (\<lambda>w. w\<lparr>balance := balance w - amt\<rparr>)"


section \<open>TransactionDbAccess\<close>

definition findByIdempotencyKey :: "Database \<Rightarrow> string \<Rightarrow> Transaction option" where
  "findByIdempotencyKey db idempotencyKey =
     find (\<lambda>t. metadata t = Some idempotencyKey) (transactions db)"

text \<open>
  \<^verbatim>\<open>create\<close> inserts the row in PENDING status; its generated primary key is the argument
  \<open>newId\<close>, refused when taken.
\<close>

definition create ::
  "Database \<Rightarrow> string \<Rightarrow> string \<Rightarrow> rat \<Rightarrow> TransactionType \<Rightarrow> Description option \<Rightarrow>
   string option \<Rightarrow> string \<Rightarrow> error + (Transaction \<times> Database)" where
  "create tx sender receiver amt ty descr meta newId =
     (if newId \<in> set (map tx_id (transactions tx)) then Inl UniqueViolation
      else
        (let t = \<lparr>tx_id = newId, senderWalletId = sender, receiverWalletId = receiver,
                  amount = amt, txType = ty, status = PENDING, description = descr,
                  metadata = meta\<rparr>
         in Inr (t, tx\<lparr>transactions := transactions tx @ [t]\<rparr>)))"

definition updateStatus ::
  "Database \<Rightarrow> string \<Rightarrow> TransactionStatus \<Rightarrow> error + (Transaction \<times> Database)" where
  "updateStatus tx transactionId st =
     (case find (\<lambda>t. tx_id t = transactionId) (transactions tx) of
        None \<Rightarrow> Inl RecordNotFound
      | Some t \<Rightarrow>
          Inr (t\<lparr>status := st\<rparr>,
               tx\<lparr>transactions :=
                    map (\<lambda>x. if tx_id x = transactionId then x\<lparr>status := st\<rparr> else x)
                      (transactions tx)\<rparr>))"

section \<open>WalletService\<close>

definition getOrCreateWallet ::
  "Database \<Rightarrow> string \<Rightarrow> string \<Rightarrow> string \<Rightarrow> error + (Wallet \<times> Database)" where
  "getOrCreateWallet db uid aid newId = getOrCreate db uid aid newId"

section \<open>TransactionService\<close>

text \<open>
  The block at the head of each operation,
  \<^verbatim>\<open>if (idempotencyKey) { const existing = await findByIdempotencyKey(idempotencyKey); ... }\<close>:
  the lookup is made only for a truthy key.
\<close>

definition existingFor :: "Database \<Rightarrow> string option \<Rightarrow> Transaction option" where
  "existingFor db idempotencyKey =
     (case idempotencyKey of
        None \<Rightarrow> None
      | Some k \<Rightarrow> if k \<noteq> [] then findByIdempotencyKey db k else None)"

text \<open>\<^verbatim>\<open>metadata: idempotencyKey ? { idempotencyKey } : undefined\<close>\<close>

definition metadataOf :: "string option \<Rightarrow> string option" where
  "metadataOf idempotencyKey = (if truthy idempotencyKey then idempotencyKey else None)"

text \<open>
  The callback each operation passes to \<^verbatim>\<open>prisma.$transaction\<close>. The last argument of an
  operation is the triple of primary keys the backend would generate for the two wallets
  (in the order of the two \<^verbatim>\<open>getOrCreateWallet\<close> calls) and for the ledger entry.
\<close>

definition topUp_callback ::
  "Wallet \<Rightarrow> Wallet \<Rightarrow> string \<Rightarrow> rat \<Rightarrow> string option \<Rightarrow> string \<Rightarrow> Database \<Rightarrow>
   error + (Transaction \<times> Database)" where
  "topUp_callback treasuryWallet userWallet assetTypeName amt idempotencyKey newId tx =
     (let walletIds = sort [wallet_id treasuryWallet, wallet_id userWallet];
          ws = findManyByIds tx walletIds;
          lockedTreasuryWallet = find (\<lambda>w. wallet_id w = wallet_id treasuryWallet) ws;
          lockedUserWallet = find (\<lambda>w. wallet_id w = wallet_id userWallet) ws
      in case (lockedTreasuryWallet, lockedUserWallet) of
           (Some ltw, Some luw) \<Rightarrow>
             if balance ltw < amt then Inl InsufficientTreasuryBalance
             else
               bindE (create tx (wallet_id treasuryWallet) (wallet_id userWallet) amt DEPOSIT
                        (Some (TopUpText amt assetTypeName)) (metadataOf idempotencyKey) newId)
                 (\<lambda>(t, tx1).
               bindE (decrementBalance tx1 (wallet_id treasuryWallet) amt)
                 (\<lambda>(_, tx2).
               bindE (incrementBalance tx2 (wallet_id userWallet) amt)
                 (\<lambda>(_, tx3).
               updateStatus tx3 (tx_id t) COMPLETED)))
         | _ \<Rightarrow> Inl WalletNotFound)"

definition topUp ::
  "Database \<Rightarrow> string \<Rightarrow> string \<Rightarrow> rat \<Rightarrow> string option \<Rightarrow> string \<times> string \<times> string \<Rightarrow>
   (error + Transaction) \<times> Database" where
  "topUp db uid assetTypeName amt idempotencyKey newIds =
     (case newIds of (id1, id2, id3) \<Rightarrow>
      case existingFor db idempotencyKey of
        Some existing \<Rightarrow> (Inl DuplicateRequest, db)
      | None \<Rightarrow>
     (case findByName db assetTypeName of
        None \<Rightarrow> (Inl (AssetNotFound assetTypeName), db)
      | Some assetType \<Rightarrow>
     (case findTreasuryUser db of
        None \<Rightarrow> (Inl TreasuryNotConfigured, db)
      | Some treasuryUser \<Rightarrow>
     (case getOrCreateWallet db (user_id treasuryUser) (at_id assetType) id1 of
        Inl e \<Rightarrow> (Inl e, db)
      | Inr (treasuryWallet, db1) \<Rightarrow>
     (case getOrCreateWallet db1 uid (at_id assetType) id2 of
        Inl e \<Rightarrow> (Inl e, db1)
      | Inr (userWallet, db2) \<Rightarrow>
          prisma_transaction
            (topUp_callback treasuryWallet userWallet assetTypeName amt idempotencyKey id3)
            db2)))))"

text \<open>\<^verbatim>\<open>description || `Bonus: ${amount} ${assetTypeName}`\<close>\<close>

definition orElse :: "string option \<Rightarrow> Description \<Rightarrow> Description" where
  "orElse descr dflt = (case descr of None \<Rightarrow> dflt | Some s \<Rightarrow> if s \<noteq> [] then Text s else dflt)"

definition issueBonus_callback ::
  "Wallet \<Rightarrow> Wallet \<Rightarrow> string \<Rightarrow> rat \<Rightarrow> string option \<Rightarrow> string option \<Rightarrow> string \<Rightarrow>
   Database \<Rightarrow> error + (Transaction \<times> Database)" where
  "issueBonus_callback treasuryWallet userWallet assetTypeName amt descr idempotencyKey newId tx =
     (let walletIds = sort [wallet_id treasuryWallet, wallet_id userWallet];
          ws = findManyByIds tx walletIds;
          lockedTreasuryWallet = find (\<lambda>w. wallet_id w = wallet_id treasuryWallet) ws;
          lockedUserWallet = find (\<lambda>w. wallet_id w = wallet_id userWallet) ws
      in case (lockedTreasuryWallet, lockedUserWallet) of
           (Some ltw, Some luw) \<Rightarrow>
             if balance ltw < amt then Inl InsufficientTreasuryBalance
             else
               bindE (create tx (wallet_id treasuryWallet) (wallet_id userWallet) amt DEPOSIT
                        (Some (orElse descr (BonusText amt assetTypeName)))
                        (metadataOf idempotencyKey) newId)
                 (\<lambda>(t, tx1).
               bindE (decrementBalance tx1 (wallet_id treasuryWallet) amt)
                 (\<lambda>(_, tx2).
               bindE (incrementBalance tx2 (wallet_id userWallet) amt)
                 (\<lambda>(_, tx3).
               updateStatus tx3 (tx_id t) COMPLETED)))
         | _ \<Rightarrow> Inl WalletNotFound)"

definition issueBonus ::
  "Database \<Rightarrow> string \<Rightarrow> string \<Rightarrow> rat \<Rightarrow> string option \<Rightarrow> string option \<Rightarrow>
   string \<times> string \<times> string \<Rightarrow> (error + Transaction) \<times> Database" where
  "issueBonus db uid assetTypeName amt descr idempotencyKey newIds =
     (case newIds of (id1, id2, id3) \<Rightarrow>
      case existingFor db idempotencyKey of
        Some existing \<Rightarrow> (Inr existing, db)
      | None \<Rightarrow>
     (case findByName db assetTypeName of
        None \<Rightarrow> (Inl (AssetNotFound assetTypeName), db)
      | Some assetType \<Rightarrow>
     (case findTreasuryUser db of
        None \<Rightarrow> (Inl TreasuryNotConfigured, db)
      | Some treasuryUser \<Rightarrow>
     (case getOrCreateWallet db (user_id treasuryUser) (at_id assetType) id1 of
        Inl e \<Rightarrow> (Inl e, db)
      | Inr (treasuryWallet, db1) \<Rightarrow>
     (case getOrCreateWallet db1 uid (at_id assetType) id2 of
        Inl e \<Rightarrow> (Inl e, db1)
      | Inr (userWallet, db2) \<Rightarrow>
          prisma_transaction
            (issueBonus_callback treasuryWallet userWallet assetTypeName amt descr
               idempotencyKey id3)
            db2)))))"

definition spend_callback ::
  "Wallet \<Rightarrow> Wallet \<Rightarrow> string \<Rightarrow> rat \<Rightarrow> string option \<Rightarrow> string option \<Rightarrow> string \<Rightarrow>
   Database \<Rightarrow> error + (Transaction \<times> Database)" where
  "spend_callback userWallet treasuryWallet assetTypeName amt descr idempotencyKey newId tx =
     (let walletIds = sort [wallet_id userWallet, wallet_id treasuryWallet];
          ws = findManyByIds tx walletIds;
          lockedUserWallet = find (\<lambda>w. wallet_id w = wallet_id userWallet) ws;
          lockedTreasuryWallet = find (\<lambda>w. wallet_id w = wallet_id treasuryWallet) ws
      in case (lockedUserWallet, lockedTreasuryWallet) of
           (Some luw, Some ltw) \<Rightarrow>
             if balance luw < amt then Inl InsufficientBalance
             else
               bindE (create tx (wallet_id userWallet) (wallet_id treasuryWallet) amt WITHDRAWAL
                        (Some (orElse descr (PurchaseText amt assetTypeName)))
                        (metadataOf idempotencyKey) newId)
                 (\<lambda>(t, tx1).
               bindE (decrementBalance tx1 (wallet_id userWallet) amt)
                 (\<lambda>(_, tx2).
               bindE (incrementBalance tx2 (wallet_id treasuryWallet) amt)
                 (\<lambda>(_, tx3).
               updateStatus tx3 (tx_id t) COMPLETED)))
         | _ \<Rightarrow> Inl WalletNotFound)"

definition spend ::
  "Database \<Rightarrow> string \<Rightarrow> string \<Rightarrow> rat \<Rightarrow> string option \<Rightarrow> string option \<Rightarrow>
   string \<times> string \<times> string \<Rightarrow> (error + Transaction) \<times> Database" where
  "spend db uid assetTypeName amt descr idempotencyKey newIds =
     (case newIds of (id1, id2, id3) \<Rightarrow>
      case existingFor db idempotencyKey of
        Some existing \<Rightarrow> (Inr existing, db)
      | None \<Rightarrow>
     (case findByName db assetTypeName of
        None \<Rightarrow> (Inl (AssetNotFound assetTypeName), db)
      | Some assetType \<Rightarrow>
     (case findTreasuryUser db of
        None \<Rightarrow> (Inl TreasuryNotConfigured, db)
      | Some treasuryUser \<Rightarrow>
     (case getOrCreateWallet db uid (at_id assetType) id1 of
        Inl e \<Rightarrow> (Inl e, db)
      | Inr (userWallet, db1) \<Rightarrow>
     (case getOrCreateWallet db1 (user_id treasuryUser) (at_id assetType) id2 of
        Inl e \<Rightarrow> (Inl e, db1)
      | Inr (treasuryWallet, db2) \<Rightarrow>
          prisma_transaction
            (spend_callback userWallet treasuryWallet assetTypeName amt descr
               idempotencyKey id3)
            db2)))))"

section \<open>Request layer\<close>

text \<open>
  The three POST handlers. A body carries the optional JSON fields; a response is the
  status code with the ledger entry (201) or the error (400).
\<close>

record Body =
  b_userId :: "string option"
  b_assetType :: "string option"
  b_amount :: "rat option"
  b_description :: "string option"
  b_idempotencyKey :: "string option"

datatype Response = Status201 Transaction | Status400 error

definition respond :: "(error + Transaction) \<times> Database \<Rightarrow> Response \<times> Database" where
  "respond r = (case r of (Inl e, db) \<Rightarrow> (Status400 e, db) | (Inr t, db) \<Rightarrow> (Status201 t, db))"

definition post_top_up :: "Database \<Rightarrow> Body \<Rightarrow> string \<times> string \<times> string \<Rightarrow> Response \<times> Database" where
  "post_top_up db body newIds =
     (case (b_userId body, b_assetType body, b_amount body) of
        (Some uid, Some assetType, Some amt) \<Rightarrow>
          if uid = [] \<or> assetType = [] then (Status400 RequiredFields, db)
          else if amt \<le> 0 then (Status400 InvalidAmount, db)
          else respond (topUp db uid assetType amt (b_idempotencyKey body) newIds)
      | _ \<Rightarrow> (Status400 RequiredFields, db))"

definition post_bonus :: "Database \<Rightarrow> Body \<Rightarrow> string \<times> string \<times> string \<Rightarrow> Response \<times> Database" where
  "post_bonus db body newIds =
     (case (b_userId body, b_assetType body, b_amount body) of
        (Some uid, Some assetType, Some amt) \<Rightarrow>
          if uid = [] \<or> assetType = [] then (Status400 RequiredFields, db)
          else if amt \<le> 0 then (Status400 InvalidAmount, db)
          else respond (issueBonus db uid assetType amt (b_description body)
                          (b_idempotencyKey body) newIds)
      | _ \<Rightarrow> (Status400 RequiredFields, db))"

definition post_spend :: "Database \<Rightarrow> Body \<Rightarrow> string \<times> string \<times> string \<Rightarrow> Response \<times> Database" where
  "post_spend db body newIds =
     (case (b_userId body, b_assetType body, b_amount body) of
        (Some uid, Some assetType, Some amt) \<Rightarrow>
          if uid = [] \<or> assetType = [] \<or> \<not> truthy (b_description body)
          then (Status400 RequiredFields, db)
          else if amt \<le> 0 then (Status400 InvalidAmount, db)
          else respond (spend db uid assetType amt (b_description body)
                          (b_idempotencyKey body) newIds)
      | _ \<Rightarrow> (Status400 RequiredFields, db))"

section \<open>Notions used in the statements\<close>


text \<open>
  The three callbacks are one algorithm with different parameters. The proofs go through
  this common form, which is shown equal to each callback below (after the two locked
  wallets are looked up in the table instead of in the sorted fetch).
\<close>

definition transfer_callback ::
  "string \<Rightarrow> string \<Rightarrow> rat \<Rightarrow> error \<Rightarrow> TransactionType \<Rightarrow> Description option \<Rightarrow>
   string option \<Rightarrow> string \<Rightarrow> Database \<Rightarrow> error + (Transaction \<times> Database)" where
  "transfer_callback sid rid amt insufficient ty descr meta newId tx =
     (case find (\<lambda>w. wallet_id w = sid) (wallets tx) of
        None \<Rightarrow> Inl WalletNotFound
      | Some s \<Rightarrow>
     (case find (\<lambda>w. wallet_id w = rid) (wallets tx) of
        None \<Rightarrow> Inl WalletNotFound
      | Some r \<Rightarrow>
          if balance s < amt then Inl insufficient
          else
            bindE (create tx sid rid amt ty descr meta newId) (\<lambda>(t, tx1).
            bindE (decrementBalance tx1 sid amt) (\<lambda>(_, tx2).
            bindE (incrementBalance tx2 rid amt) (\<lambda>(_, tx3).
            updateStatus tx3 (tx_id t) COMPLETED)))))"

text \<open>The part of an operation after the three lookups, in the common form.\<close>

definition run_transfer ::
  "Database \<Rightarrow> string \<Rightarrow> string \<Rightarrow> string \<Rightarrow> string \<Rightarrow> string \<Rightarrow> rat \<Rightarrow> error \<Rightarrow>
   TransactionType \<Rightarrow> Description option \<Rightarrow> string option \<Rightarrow> string \<Rightarrow>
   (error + Transaction) \<times> Database" where
  "run_transfer db u1 u2 aid id1 id2 amt insufficient ty descr meta id3 =
     (case getOrCreateWallet db u1 aid id1 of
        Inl e \<Rightarrow> (Inl e, db)
      | Inr (w1, db1) \<Rightarrow>
     (case getOrCreateWallet db1 u2 aid id2 of
        Inl e \<Rightarrow> (Inl e, db1)
      | Inr (w2, db2) \<Rightarrow>
          prisma_transaction
            (transfer_callback (wallet_id w1) (wallet_id w2) amt insufficient ty descr meta id3)
            db2))"



section \<open>Example data\<close>

text \<open>
  A seeded database: the asset type GOLD, the Treasury with 1,000,000 GOLD and a user with
  50 GOLD; then the same database after a top-up of 100 under the key \<^verbatim>\<open>k\<close>.
\<close>

definition ex_treasury_wallet :: Wallet where
  "ex_treasury_wallet =
     \<lparr>wallet_id = ''w1'', userId = ''t'', assetTypeId = ''g'', balance = 1000000\<rparr>"

definition ex_user_wallet :: Wallet where
  "ex_user_wallet = \<lparr>wallet_id = ''w2'', userId = ''a'', assetTypeId = ''g'', balance = 50\<rparr>"

definition ex_db :: Database where
  "ex_db =
     \<lparr>assetTypes = [\<lparr>at_id = ''g'', at_name = ''GOLD''\<rparr>],
      users = [\<lparr>user_id = ''t'', email = ''treasury@wallet.internal'',
                userName = ''System Treasury''\<rparr>,
               \<lparr>user_id = ''a'', email = ''a@example.org'', userName = ''A''\<rparr>],
      wallets = [ex_treasury_wallet, ex_user_wallet],
      transactions = []\<rparr>"

definition ex_deposit :: Transaction where
  "ex_deposit =
     \<lparr>tx_id = ''x1'', senderWalletId = ''w1'', receiverWalletId = ''w2'', amount = 100,
      txType = DEPOSIT, status = COMPLETED, description = Some (TopUpText 100 ''GOLD''),
      metadata = Some ''k''\<rparr>"

definition ex_db_topped :: Database where
  "ex_db_topped =
     ex_db\<lparr>wallets := [ex_treasury_wallet\<lparr>balance := 999900\<rparr>,
                        ex_user_wallet\<lparr>balance := 150\<rparr>],
            transactions := [ex_deposit]\<rparr>"

section \<open>Lemmas on lists and on the storage primitives\<close>

lemma find_as_filter: "find P xs = (case filter P xs of [] \<Rightarrow> None | x # _ \<Rightarrow> Some x)"
  by (induction xs) auto

lemma find_sort_key: "find (\<lambda>w. f w = a) (sort_key f xs) = find (\<lambda>w. f w = a) xs"
  by (simp add: find_as_filter sort_key_stable)

lemma find_filter_weaker: "(\<And>x. P x \<Longrightarrow> Q x) \<Longrightarrow> find P (filter Q xs) = find P xs"
  by (induction xs) auto

lemma find_findManyByIds:
  "a \<in> set ids \<Longrightarrow>
   find (\<lambda>w. wallet_id w = a) (findManyByIds tx ids) = find (\<lambda>w. wallet_id w = a) (wallets tx)"
proof -
  assume a: "a \<in> set ids"
  then have "sort ids \<noteq> []"
    by (metis empty_iff list.set(1) set_sort)
  moreover have "find (\<lambda>w. wallet_id w = a) (filter (\<lambda>w. wallet_id w \<in> set ids) (wallets tx)) =
                 find (\<lambda>w. wallet_id w = a) (wallets tx)"
    using a by (intro find_filter_weaker) simp
  ultimately show ?thesis
    by (simp add: findManyByIds_def Let_def find_sort_key)
qed












lemma locked_sender:
  "find (\<lambda>w. wallet_id w = a) (findManyByIds tx (sort [a, b])) =
   find (\<lambda>w. wallet_id w = a) (wallets tx)"
  by (rule find_findManyByIds) simp

lemma locked_receiver:
  "find (\<lambda>w. wallet_id w = b) (findManyByIds tx (sort [a, b])) =
   find (\<lambda>w. wallet_id w = b) (wallets tx)"
  by (rule find_findManyByIds) simp

lemma topUp_callback_transfer:
  "topUp_callback tw uw an amt key nid tx =
   transfer_callback (wallet_id tw) (wallet_id uw) amt InsufficientTreasuryBalance DEPOSIT
     (Some (TopUpText amt an)) (metadataOf key) nid tx"
  unfolding topUp_callback_def transfer_callback_def Let_def locked_sender locked_receiver
  by (simp split: option.splits)







section \<open>The outcome of an operation\<close>

lemma topUp_callback_fun:
  "topUp_callback tw uw an amt key nid =
   transfer_callback (wallet_id tw) (wallet_id uw) amt InsufficientTreasuryBalance DEPOSIT
     (Some (TopUpText amt an)) (metadataOf key) nid"
  by (rule ext) (rule topUp_callback_transfer)



lemma topUp_unfold:
  "topUp db uid an amt key (id1, id2, id3) =
     (case existingFor db key of
        Some existing \<Rightarrow> (Inl DuplicateRequest, db)
      | None \<Rightarrow>
     (case findByName db an of
        None \<Rightarrow> (Inl (AssetNotFound an), db)
      | Some assetType \<Rightarrow>
     (case findTreasuryUser db of
        None \<Rightarrow> (Inl TreasuryNotConfigured, db)
      | Some treasuryUser \<Rightarrow>
          run_transfer db (user_id treasuryUser) uid (at_id assetType) id1 id2 amt
            InsufficientTreasuryBalance DEPOSIT (Some (TopUpText amt an)) (metadataOf key) id3)))"
  by (simp add: topUp_def run_transfer_def topUp_callback_fun
        split: option.splits sum.splits prod.splits)












section \<open>Lemmas shared by the claims\<close>

lemma existingFor_key: "k \<noteq> [] \<Longrightarrow> existingFor db (Some k) = findByIdempotencyKey db k"
  by (simp add: existingFor_def)

text \<open>No operation stores an empty key: a falsy key is stored as no key.\<close>

lemma metadataOf_not_empty: "metadataOf key \<noteq> Some []"
  by (cases key) (auto simp: metadataOf_def truthy_def)







section \<open>Conservation of a transfer (C1)\<close>




section \<open>A spend beyond the balance (C2)\<close>



section \<open>Replayed idempotency keys (C3, C4, C10)\<close>

text \<open>
  C3. A top-up that supplies a key (a non-empty string; an empty one is falsy and counts
  as no key) under which a ledger entry is stored is rejected with DuplicateRequest, and
  the database is returned as it was: no second entry, no credit.
\<close>

theorem topUp_duplicate:
  assumes "k \<noteq> []" and "findByIdempotencyKey db k = Some e"
  shows "topUp db uid an amt (Some k) ids = (Inl DuplicateRequest, db)"
proof -
  obtain id1 id2 id3 where ids: "ids = (id1, id2, id3)" by (cases ids) auto
  show ?thesis
    unfolding ids topUp_unfold by (simp add: existingFor_key assms)
qed

theorem topUp_duplicate_witness:
  "''k'' \<noteq> [] \<and> findByIdempotencyKey ex_db_topped ''k'' = Some ex_deposit \<and>
   topUp ex_db_topped ''a'' ''GOLD'' 100 (Some ''k'') (''w8'', ''w9'', ''x2'') =
     (Inl DuplicateRequest, ex_db_topped)"
proof -
  have ne: "''k'' \<noteq> []" by simp
  have hit: "findByIdempotencyKey ex_db_topped ''k'' = Some ex_deposit" by code_simp
  from topUp_duplicate [OF ne hit] ne hit show ?thesis by blast
qed





section \<open>Amount validation (C5)\<close>

text \<open>
  C5, as amended. The check of the amount is in the request layer: each of the three POST
  handlers, once the required fields are present, answers a zero or negative amount with
  InvalidAmount and the database as it was, without calling the operation.
\<close>

theorem routes_reject_amount:
  assumes "b_userId body = Some uid" and "uid \<noteq> []"
    and "b_assetType body = Some an" and "an \<noteq> []"
    and "b_amount body = Some amt" and "amt \<le> 0"
  shows "post_top_up db body ids = (Status400 InvalidAmount, db) \<and>
         post_bonus db body ids = (Status400 InvalidAmount, db) \<and>
         (truthy (b_description body) \<longrightarrow> post_spend db body ids = (Status400 InvalidAmount, db))"
  using assms by (simp add: post_top_up_def post_bonus_def post_spend_def)

theorem routes_reject_amount_witness:
  "truthy (Some ''item'') \<and> (-5 :: rat) \<le> 0 \<and>
   post_top_up ex_db
     \<lparr>b_userId = Some ''a'', b_assetType = Some ''GOLD'', b_amount = Some (-5),
      b_description = Some ''item'', b_idempotencyKey = None\<rparr> (''w8'', ''w9'', ''x1'') =
     (Status400 InvalidAmount, ex_db) \<and>
   post_bonus ex_db
     \<lparr>b_userId = Some ''a'', b_assetType = Some ''GOLD'', b_amount = Some (-5),
      b_description = Some ''item'', b_idempotencyKey = None\<rparr> (''w8'', ''w9'', ''x1'') =
     (Status400 InvalidAmount, ex_db) \<and>
   post_spend ex_db
     \<lparr>b_userId = Some ''a'', b_assetType = Some ''GOLD'', b_amount = Some (-5),
      b_description = Some ''item'', b_idempotencyKey = None\<rparr> (''w8'', ''w9'', ''x1'') =
     (Status400 InvalidAmount, ex_db)"
  using routes_reject_amount [of
      "\<lparr>b_userId = Some ''a'', b_assetType = Some ''GOLD'', b_amount = Some (-5),
        b_description = Some ''item'', b_idempotencyKey = None\<rparr>"
      "''a''" "''GOLD''" "-5" ex_db "(''w8'', ''w9'', ''x1'')"]
  by (simp add: truthy_def)

text \<open>
  The operations themselves do not look at the sign of the amount: a top-up of -5 called
  on the service is not rejected, it completes, and it moves 5 from the user to the
  Treasury.
\<close>

theorem topUp_negative_counterexample:
  "topUp ex_db ''a'' ''GOLD'' (-5) None (''w8'', ''w9'', ''x1'') =
     (Inr \<lparr>tx_id = ''x1'', senderWalletId = ''w1'', receiverWalletId = ''w2'', amount = -5,
           txType = DEPOSIT, status = COMPLETED,
           description = Some (TopUpText (-5) ''GOLD''), metadata = None\<rparr>,
      ex_db\<lparr>wallets := [ex_treasury_wallet\<lparr>balance := 1000005\<rparr>,
                         ex_user_wallet\<lparr>balance := 45\<rparr>],
             transactions :=
        [\<lparr>tx_id = ''x1'', senderWalletId = ''w1'', receiverWalletId = ''w2'', amount = -5,
          txType = DEPOSIT, status = COMPLETED,
          description = Some (TopUpText (-5) ''GOLD''), metadata = None\<rparr>]\<rparr>) \<and>
   fst (topUp ex_db ''a'' ''GOLD'' (-5) None (''w8'', ''w9'', ''x1'')) \<noteq> Inl InvalidAmount"
  by code_simp

section \<open>The debit primitives (C6)\<close>




section \<open>Ordered fetch of the wallets (C7)\<close>

text \<open>
  C7. \<open>findManyByIds\<close> returns the wallets whose id is among the given ones in ascending
  order of id, and the result depends only on which ids are given, not on their order:
  two transfers over the same pair of wallets fetch them in the same order.
\<close>

theorem findManyByIds_sorted:
  "sorted (map wallet_id (findManyByIds tx ids)) \<and>
   set (findManyByIds tx ids) = {w \<in> set (wallets tx). wallet_id w \<in> set ids} \<and>
   (set ids' = set ids \<longrightarrow> findManyByIds tx ids' = findManyByIds tx ids)"
proof (intro conjI impI)
  show "sorted (map wallet_id (findManyByIds tx ids))"
    by (simp add: findManyByIds_def Let_def)
  show "set (findManyByIds tx ids) = {w \<in> set (wallets tx). wallet_id w \<in> set ids}"
  proof (cases "ids = []")
    case True
    then show ?thesis by (simp add: findManyByIds_def)
  next
    case False
    then have "sort ids \<noteq> []" by (metis set_empty set_sort)
    then show ?thesis by (auto simp: findManyByIds_def Let_def)
  qed
  assume eq: "set ids' = set ids"
  then have "ids' = [] \<longleftrightarrow> ids = []" by (metis set_empty)
  moreover have "sort ids' = [] \<longleftrightarrow> ids' = []" "sort ids = [] \<longleftrightarrow> ids = []"
    by (metis set_empty set_sort)+
  ultimately show "findManyByIds tx ids' = findManyByIds tx ids"
    using eq by (simp add: findManyByIds_def Let_def)
qed

theorem findManyByIds_sorted_witness:
  "set [''w2'', ''w1''] = set [''w1'', ''w2''] \<and>
   findManyByIds ex_db [''w2'', ''w1''] = findManyByIds ex_db [''w1'', ''w2''] \<and>
   findManyByIds ex_db [''w2'', ''w1''] = [ex_treasury_wallet, ex_user_wallet]"
proof -
  have eq: "set [''w2'', ''w1''] = set [''w1'', ''w2'']" by auto
  have v: "findManyByIds ex_db [''w2'', ''w1''] = [ex_treasury_wallet, ex_user_wallet]"
    by code_simp
  from findManyByIds_sorted [of ex_db "[''w1'', ''w2'']" "[''w2'', ''w1'']"] eq
  have "findManyByIds ex_db [''w2'', ''w1''] = findManyByIds ex_db [''w1'', ''w2'']"
    by blast
  with eq v show ?thesis by blast
qed

section \<open>Status of the ledger entries (C8)\<close>



end
